theory Spec2Isabelle
  imports Main
begin

section \<open>Data model\<close>

text \<open>
  The package is a client for the JSON IPC protocol of mpv. One IPCClient owns a
  connection, a context, an unbuffered channel \<open>comm\<close> and the map \<open>reqMap\<close>; three kinds of
  goroutine work on it: the callers of \<open>Exec\<close>, \<open>writeloop\<close> and \<open>readloop\<close>.

  Errors are values. \<open>Canceled\<close> and \<open>DeadlineExceeded\<close> are what \<open>cx.Err()\<close> returns once
  \<open>cx.Done()\<close> is closed; \<open>ErrTimeoutSend\<close>, \<open>ErrTimeoutRecv\<close> and \<open>ChannelErr\<close> are the
  package's own variables; \<open>CommClosed\<close> is the error writeloop builds when \<open>comm\<close> is closed;
  \<open>UnsupportedTypeError\<close>, \<open>SyntaxError\<close> and \<open>UnmarshalTypeError\<close> are the errors of
  encoding/json, \<open>IOError\<close> any error of the connection.
\<close>

datatype error =
    Canceled | DeadlineExceeded
  | ErrTimeoutSend | ErrTimeoutRecv | ChannelErr
  | CommClosed
  | UnsupportedTypeError | SyntaxError | UnmarshalTypeError | IOError

text \<open>A reply channel, \<open>make(chan *Response, 1)\<close>, is known by its address.\<close>

type_synonym chan = nat

text \<open>\<open>Data\<close> is a json.RawMessage: the bytes of the value as they stood on the wire.\<close>

record Response =
  Err :: string
  Data :: string
  Event :: string
  RequestID :: int

text \<open>
  An element of \<open>Command\<close> is an \<open>interface{}\<close>. The callers in client.go pass strings,
  ints and bools; \<open>AUnsupported\<close> stands for a value json.Marshal rejects (a channel, a
  function, a complex number, a NaN). Finite floats are left out of the model.
\<close>

datatype arg = AString string | AInt int | ABool bool | AUnsupported

record request =
  Command :: "arg list"
  RequestID :: int
  Response :: chan

text \<open>
  encoding/json is not part of the package. The loops take its two entry points as they
  are called in the source: \<open>json.Marshal(req)\<close> and \<open>json.Unmarshal(data, &resp)\<close> on a
  fresh \<open>resp\<close>.
\<close>

record json =
  Marshal :: "request \<Rightarrow> error + string"
  Unmarshal :: "string \<Rightarrow> error + Response"

text \<open>
  \<open>rand.Intn(n)\<close> returns a number in \<open>[0, n)\<close>; \<open>r\<close> is what the generator draws.
\<close>

definition rand_Intn :: "nat \<Rightarrow> nat \<Rightarrow> int" where
  "rand_Intn n r = int (r mod n)"

text \<open>newRequest; \<open>ch\<close> is the address of the channel that \<open>make\<close> returns.\<close>

definition newRequest :: "arg list \<Rightarrow> nat \<Rightarrow> chan \<Rightarrow> request" where
  "newRequest cmd r ch = \<lparr>Command = cmd, RequestID = rand_Intn 10000 r, Response = ch\<rparr>"

section \<open>encoding/json\<close>

text \<open>
  What json.Marshal writes for a request and what json.Unmarshal reads into a Response,
  as the standard library (Go 1.22) does it for the two struct types of the package.
  A text is a list of bytes.
\<close>

definition byte :: "char \<Rightarrow> nat" where
  "byte c = of_char c"

definition hex :: "nat \<Rightarrow> char" where
  "hex n = ''0123456789abcdef'' ! n"

text \<open>utf8.DecodeRune: the length of the encoding at the head, 0 where it is not one.\<close>

definition in_range :: "nat \<Rightarrow> nat \<Rightarrow> string \<Rightarrow> nat \<Rightarrow> bool" where
  "in_range lo hi s i = (i < length s \<and> lo \<le> byte (s ! i) \<and> byte (s ! i) \<le> hi)"

definition rune_len :: "string \<Rightarrow> nat" where
  "rune_len s =
     (if in_range 0x00 0x7F s 0 then 1
      else if in_range 0xC2 0xDF s 0 then (if in_range 0x80 0xBF s 1 then 2 else 0)
      else if in_range 0xE0 0xE0 s 0
        then (if in_range 0xA0 0xBF s 1 \<and> in_range 0x80 0xBF s 2 then 3 else 0)
      else if in_range 0xED 0xED s 0
        then (if in_range 0x80 0x9F s 1 \<and> in_range 0x80 0xBF s 2 then 3 else 0)
      else if in_range 0xE1 0xEF s 0
        then (if in_range 0x80 0xBF s 1 \<and> in_range 0x80 0xBF s 2 then 3 else 0)
      else if in_range 0xF0 0xF0 s 0
        then (if in_range 0x90 0xBF s 1 \<and> in_range 0x80 0xBF s 2 \<and> in_range 0x80 0xBF s 3
              then 4 else 0)
      else if in_range 0xF4 0xF4 s 0
        then (if in_range 0x80 0x8F s 1 \<and> in_range 0x80 0xBF s 2 \<and> in_range 0x80 0xBF s 3
              then 4 else 0)
      else if in_range 0xF1 0xF3 s 0
        then (if in_range 0x80 0xBF s 1 \<and> in_range 0x80 0xBF s 2 \<and> in_range 0x80 0xBF s 3
              then 4 else 0)
      else 0)"

text \<open>utf8.EncodeRune, for a code point below 0x110000 that is no surrogate.\<close>

definition encode_rune :: "nat \<Rightarrow> string" where
  "encode_rune r =
     (if r < 0x80 then [char_of r]
      else if r < 0x800 then [char_of (0xC0 + r div 64), char_of (0x80 + r mod 64)]
      else if r < 0x10000
        then [char_of (0xE0 + r div 4096), char_of (0x80 + r div 64 mod 64),
              char_of (0x80 + r mod 64)]
      else [char_of (0xF0 + r div 262144), char_of (0x80 + r div 4096 mod 64),
            char_of (0x80 + r div 64 mod 64), char_of (0x80 + r mod 64)])"


subsection \<open>Marshal\<close>

text \<open>
  The characters a string keeps as they are when HTML escaping is on: the printable
  ASCII characters but the double quote, the backslash and the three of HTML.
\<close>

definition htmlSafe :: "char \<Rightarrow> bool" where
  \<open>htmlSafe c = (0x20 \<le> byte c \<and> byte c < 0x80 \<and>
     c \<noteq> CHR ''"'' \<and> c \<noteq> CHR 0x5C \<and> c \<noteq> CHR ''<'' \<and> c \<noteq> CHR ''>'' \<and> c \<noteq> CHR ''&'')\<close>

text \<open>What stands for a byte below 0x80 that is not kept.\<close>

definition escape :: "char \<Rightarrow> string" where
  \<open>escape c =
     CHR 0x5C #
     (if c = CHR 0x5C \<or> c = CHR ''"'' then [c]
      else if c = CHR 0x08 then ''b''
      else if c = CHR 0x0C then ''f''
      else if c = CHR 0x0A then ''n''
      else if c = CHR 0x0D then ''r''
      else if c = CHR 0x09 then ''t''
      else ''u00'' @ [hex (byte c div 16), hex (byte c mod 16)])\<close>

text \<open>The body of a string between its quotes.\<close>

function appendString :: "string \<Rightarrow> string" where
  "appendString [] = []"
| "appendString (c # cs) =
     (if byte c < 0x80 then
        (if htmlSafe c then c # appendString cs else escape c @ appendString cs)
      else
        let n = rune_len (c # cs) in
        if n = 0 then CHR 0x5C # ''ufffd'' @ appendString cs
        else if take n (c # cs) = [CHR 0xE2, CHR 0x80, CHR 0xA8]
          then CHR 0x5C # ''u2028'' @ appendString (drop (n - 1) cs)
        else if take n (c # cs) = [CHR 0xE2, CHR 0x80, CHR 0xA9]
          then CHR 0x5C # ''u2029'' @ appendString (drop (n - 1) cs)
        else take n (c # cs) @ appendString (drop (n - 1) cs))"
  by pat_completeness auto
termination
  by (relation "measure length") auto

text \<open>strconv.AppendInt in base 10.\<close>

function utoa :: "nat \<Rightarrow> string" where
  "utoa n = (if n < 10 then [hex n] else utoa (n div 10) @ [hex (n mod 10)])"
  by pat_completeness auto
termination
  by (relation "measure id") auto

declare utoa.simps [simp del]

definition itoa :: "int \<Rightarrow> string" where
  "itoa i = (if i < 0 then CHR ''-'' # utoa (nat (- i)) else utoa (nat i))"

fun marshal_arg :: "arg \<Rightarrow> error + string" where
  \<open>marshal_arg (AString s) = Inr (CHR ''"'' # appendString s @ ''"'')\<close>
| \<open>marshal_arg (AInt i) = Inr (itoa i)\<close>
| \<open>marshal_arg (ABool b) = Inr (if b then ''true'' else ''false'')\<close>
| \<open>marshal_arg AUnsupported = Inl UnsupportedTypeError\<close>

text \<open>The elements of an array, each after the first behind a comma.\<close>

fun marshal_elems :: "arg list \<Rightarrow> error + string" where
  "marshal_elems [] = Inr []"
| "marshal_elems (a # as) =
     (case marshal_arg a of
        Inl e \<Rightarrow> Inl e
      | Inr x \<Rightarrow>
          (case marshal_elems as of
             Inl e \<Rightarrow> Inl e
           | Inr y \<Rightarrow> Inr (x @ (if as = [] then [] else CHR '','' # y))))"

text \<open>
  A slice: \<open>null\<close> when it is nil, which is what Exec passes on when it is called with
  no argument.
\<close>

definition marshal_command :: "arg list \<Rightarrow> error + string" where
  \<open>marshal_command cmd =
     (if cmd = [] then Inr ''null''
      else case marshal_elems cmd of
        Inl e \<Rightarrow> Inl e
      | Inr x \<Rightarrow> Inr (CHR ''['' # x @ '']''))\<close>

text \<open>
  json.Marshal on a request: the fields \<open>command\<close> and \<open>request_id\<close>; the tag of
  \<open>Response\<close> leaves it out.
\<close>

definition Marshal_request :: "request \<Rightarrow> error + string" where
  \<open>Marshal_request req =
     (case marshal_command (Command req) of
        Inl e \<Rightarrow> Inl e
      | Inr x \<Rightarrow>
          Inr (''{"command":'' @ x @ '',"request_id":'' @ itoa (request.RequestID req) @ ''}''))\<close>

subsection \<open>The scanner\<close>

text \<open>
  The scanner of encoding/json reads a text byte by byte; its state is the step it is at
  and the stack of the objects and arrays it is inside. \<open>None\<close> is a syntax error.
\<close>

datatype pstate = ParseObjectKey | ParseObjectValue | ParseArrayValue

datatype sstate =
    BeginValueOrEmpty | BeginValue | BeginStringOrEmpty | BeginString | EndValue | EndTop
  | InString | InStringEsc | InStringEscU | InStringEscU1 | InStringEscU12 | InStringEscU123
  | Neg | S1 | S0 | Dot | Dot0 | SE | ESign | E0
  | ST | Tr | Tru | SF | Fa | Fal | Fals | SN | Nu | Nul

definition isSpace :: "char \<Rightarrow> bool" where
  "isSpace c = (c = CHR '' '' \<or> c = CHR 0x09 \<or> c = CHR 0x0D \<or> c = CHR 0x0A)"

definition isDigit :: "char \<Rightarrow> bool" where
  "isDigit c = (0x30 \<le> byte c \<and> byte c \<le> 0x39)"

definition isHex :: "char \<Rightarrow> bool" where
  "isHex c = (isDigit c \<or> (0x61 \<le> byte c \<and> byte c \<le> 0x66) \<or> (0x41 \<le> byte c \<and> byte c \<le> 0x46))"

definition maxNestingDepth :: nat where
  "maxNestingDepth = 10000"

definition pushParseState :: "pstate \<Rightarrow> sstate \<Rightarrow> pstate list \<Rightarrow> (sstate \<times> pstate list) option" where
  "pushParseState p st ps =
     (if length (p # ps) \<le> maxNestingDepth then Some (st, p # ps) else None)"

definition popParseState :: "pstate list \<Rightarrow> (sstate \<times> pstate list) option" where
  "popParseState ps = (if tl ps = [] then Some (EndTop, []) else Some (EndValue, tl ps))"

definition stateEndTop :: "char \<Rightarrow> (sstate \<times> pstate list) option" where
  "stateEndTop c = (if isSpace c then Some (EndTop, []) else None)"

definition stateEndValue :: "pstate list \<Rightarrow> char \<Rightarrow> (sstate \<times> pstate list) option" where
  \<open>stateEndValue ps c =
     (case ps of
        [] \<Rightarrow> stateEndTop c
      | p # q \<Rightarrow>
          if isSpace c then Some (EndValue, ps)
          else (case p of
            ParseObjectKey \<Rightarrow>
              (if c = CHR '':'' then Some (BeginValue, ParseObjectValue # q) else None)
          | ParseObjectValue \<Rightarrow>
              (if c = CHR '','' then Some (BeginString, ParseObjectKey # q)
               else if c = CHR ''}'' then popParseState ps
               else None)
          | ParseArrayValue \<Rightarrow>
              (if c = CHR '','' then Some (BeginValue, ps)
               else if c = CHR '']'' then popParseState ps
               else None)))\<close>

definition stateBeginValue :: "pstate list \<Rightarrow> char \<Rightarrow> (sstate \<times> pstate list) option" where
  \<open>stateBeginValue ps c =
     (if isSpace c then Some (BeginValue, ps)
      else if c = CHR ''{'' then pushParseState ParseObjectKey BeginStringOrEmpty ps
      else if c = CHR ''['' then pushParseState ParseArrayValue BeginValueOrEmpty ps
      else if c = CHR ''"'' then Some (InString, ps)
      else if c = CHR ''-'' then Some (Neg, ps)
      else if c = CHR ''0'' then Some (S0, ps)
      else if c = CHR ''t'' then Some (ST, ps)
      else if c = CHR ''f'' then Some (SF, ps)
      else if c = CHR ''n'' then Some (SN, ps)
      else if 0x31 \<le> byte c \<and> byte c \<le> 0x39 then Some (S1, ps)
      else None)\<close>

definition stateBeginString :: "pstate list \<Rightarrow> char \<Rightarrow> (sstate \<times> pstate list) option" where
  \<open>stateBeginString ps c =
     (if isSpace c then Some (BeginString, ps)
      else if c = CHR ''"'' then Some (InString, ps)
      else None)\<close>

definition state0 :: "pstate list \<Rightarrow> char \<Rightarrow> (sstate \<times> pstate list) option" where
  \<open>state0 ps c =
     (if c = CHR ''.'' then Some (Dot, ps)
      else if c = CHR ''e'' \<or> c = CHR ''E'' then Some (SE, ps)
      else stateEndValue ps c)\<close>

definition stateESign :: "pstate list \<Rightarrow> char \<Rightarrow> (sstate \<times> pstate list) option" where
  "stateESign ps c = (if isDigit c then Some (E0, ps) else None)"

definition lit :: "char \<Rightarrow> sstate \<Rightarrow> pstate list \<Rightarrow> char \<Rightarrow> (sstate \<times> pstate list) option" where
  "lit x st ps c = (if c = x then Some (st, ps) else None)"

fun scan_step :: "sstate \<Rightarrow> pstate list \<Rightarrow> char \<Rightarrow> (sstate \<times> pstate list) option" where
  \<open>scan_step BeginValueOrEmpty ps c =
     (if isSpace c then Some (BeginValueOrEmpty, ps)
      else if c = CHR '']'' then stateEndValue ps c
      else stateBeginValue ps c)\<close>
| \<open>scan_step BeginValue ps c = stateBeginValue ps c\<close>
| \<open>scan_step BeginStringOrEmpty ps c =
     (if isSpace c then Some (BeginStringOrEmpty, ps)
      else if c = CHR ''}'' then stateEndValue (ParseObjectValue # tl ps) c
      else stateBeginString ps c)\<close>
| \<open>scan_step BeginString ps c = stateBeginString ps c\<close>
| \<open>scan_step EndValue ps c = stateEndValue ps c\<close>
| \<open>scan_step EndTop ps c = stateEndTop c\<close>
| \<open>scan_step InString ps c =
     (if c = CHR ''"'' then Some (EndValue, ps)
      else if c = CHR 0x5C then Some (InStringEsc, ps)
      else if byte c < 0x20 then None
      else Some (InString, ps))\<close>
| \<open>scan_step InStringEsc ps c =
     (if c \<in> set ''bfnrt'' \<or> c = CHR 0x5C \<or> c = CHR ''/'' \<or> c = CHR ''"'' then Some (InString, ps)
      else if c = CHR ''u'' then Some (InStringEscU, ps)
      else None)\<close>
| \<open>scan_step InStringEscU ps c = (if isHex c then Some (InStringEscU1, ps) else None)\<close>
| \<open>scan_step InStringEscU1 ps c = (if isHex c then Some (InStringEscU12, ps) else None)\<close>
| \<open>scan_step InStringEscU12 ps c = (if isHex c then Some (InStringEscU123, ps) else None)\<close>
| \<open>scan_step InStringEscU123 ps c = (if isHex c then Some (InString, ps) else None)\<close>
| \<open>scan_step Neg ps c =
     (if c = CHR ''0'' then Some (S0, ps)
      else if 0x31 \<le> byte c \<and> byte c \<le> 0x39 then Some (S1, ps)
      else None)\<close>
| \<open>scan_step S1 ps c = (if isDigit c then Some (S1, ps) else state0 ps c)\<close>
| \<open>scan_step S0 ps c = state0 ps c\<close>
| \<open>scan_step Dot ps c = (if isDigit c then Some (Dot0, ps) else None)\<close>
| \<open>scan_step Dot0 ps c =
     (if isDigit c then Some (Dot0, ps)
      else if c = CHR ''e'' \<or> c = CHR ''E'' then Some (SE, ps)
      else stateEndValue ps c)\<close>
| \<open>scan_step SE ps c =
     (if c = CHR ''+'' \<or> c = CHR ''-'' then Some (ESign, ps) else stateESign ps c)\<close>
| \<open>scan_step ESign ps c = stateESign ps c\<close>
| \<open>scan_step E0 ps c = (if isDigit c then Some (E0, ps) else stateEndValue ps c)\<close>
| \<open>scan_step ST ps c = lit (CHR ''r'') Tr ps c\<close>
| \<open>scan_step Tr ps c = lit (CHR ''u'') Tru ps c\<close>
| \<open>scan_step Tru ps c = lit (CHR ''e'') EndValue ps c\<close>
| \<open>scan_step SF ps c = lit (CHR ''a'') Fa ps c\<close>
| \<open>scan_step Fa ps c = lit (CHR ''l'') Fal ps c\<close>
| \<open>scan_step Fal ps c = lit (CHR ''s'') Fals ps c\<close>
| \<open>scan_step Fals ps c = lit (CHR ''e'') EndValue ps c\<close>
| \<open>scan_step SN ps c = lit (CHR ''u'') Nu ps c\<close>
| \<open>scan_step Nu ps c = lit (CHR ''l'') Nul ps c\<close>
| \<open>scan_step Nul ps c = lit (CHR ''l'') EndValue ps c\<close>

fun scan :: "(sstate \<times> pstate list) option \<Rightarrow> string \<Rightarrow> (sstate \<times> pstate list) option" where
  "scan st [] = st"
| "scan None (c # cs) = None"
| "scan (Some (st, ps)) (c # cs) = scan (scan_step st ps c) cs"

text \<open>checkValid: the whole text is one value; at its end the scanner is given a space.\<close>

definition checkValid :: "string \<Rightarrow> bool" where
  "checkValid data =
     (case scan (Some (BeginValue, [])) data of
        None \<Rightarrow> False
      | Some (st, ps) \<Rightarrow>
          st = EndTop \<or> (case scan_step st ps (CHR '' '') of Some (EndTop, q) \<Rightarrow> True | _ \<Rightarrow> False))"

subsection \<open>Unmarshal\<close>

definition hexval :: "char \<Rightarrow> nat option" where
  "hexval c =
     (if isDigit c then Some (byte c - 0x30)
      else if 0x61 \<le> byte c \<and> byte c \<le> 0x66 then Some (byte c - 0x61 + 10)
      else if 0x41 \<le> byte c \<and> byte c \<le> 0x46 then Some (byte c - 0x41 + 10)
      else None)"

text \<open>getu4: the code unit of an escape \<open>\uXXXX\<close> at the head.\<close>

fun getu4 :: "string \<Rightarrow> nat option" where
  "getu4 (b # u # h1 # h2 # h3 # h4 # s) =
     (if b = CHR 0x5C \<and> u = CHR ''u'' then
        (case (hexval h1, hexval h2, hexval h3, hexval h4) of
           (Some x1, Some x2, Some x3, Some x4) \<Rightarrow> Some (((x1 * 16 + x2) * 16 + x3) * 16 + x4)
         | _ \<Rightarrow> None)
      else None)"
| "getu4 s = None"

definition ReplacementChar :: nat where
  "ReplacementChar = 0xFFFD"

definition IsSurrogate :: "nat \<Rightarrow> bool" where
  "IsSurrogate r = (0xD800 \<le> r \<and> r < 0xE000)"

text \<open>utf16.DecodeRune on two code units; an escape that is missing counts as none.\<close>

definition utf16_DecodeRune :: "nat \<Rightarrow> nat option \<Rightarrow> nat" where
  "utf16_DecodeRune r1 r2 =
     (case r2 of
        Some r \<Rightarrow>
          (if 0xD800 \<le> r1 \<and> r1 < 0xDC00 \<and> 0xDC00 \<le> r \<and> r < 0xE000
           then (r1 - 0xD800) * 1024 + (r - 0xDC00) + 0x10000
           else ReplacementChar)
      | None \<Rightarrow> ReplacementChar)"

text \<open>
  unquoteBytes, on the text between the quotes of a string: the escapes are replaced,
  and a byte sequence that is not UTF-8 becomes U+FFFD.
\<close>

function unquote :: "string \<Rightarrow> string option" where
  "unquote [] = Some []"
| \<open>unquote (c # cs) =
     (if c = CHR 0x5C then
        (case cs of
           [] \<Rightarrow> None
         | e # rest \<Rightarrow>
             if e = CHR ''"'' \<or> e = CHR 0x5C \<or> e = CHR ''/'' \<or> e = CHR 0x27
               then map_option ((#) e) (unquote rest)
             else if e = CHR ''b'' then map_option ((#) (CHR 0x08)) (unquote rest)
             else if e = CHR ''f'' then map_option ((#) (CHR 0x0C)) (unquote rest)
             else if e = CHR ''n'' then map_option ((#) (CHR 0x0A)) (unquote rest)
             else if e = CHR ''r'' then map_option ((#) (CHR 0x0D)) (unquote rest)
             else if e = CHR ''t'' then map_option ((#) (CHR 0x09)) (unquote rest)
             else if e = CHR ''u'' then
               (case getu4 (c # cs) of
                  None \<Rightarrow> None
                | Some rr \<Rightarrow>
                    if IsSurrogate rr then
                      (let dec = utf16_DecodeRune rr (getu4 (drop 5 cs)) in
                       if dec \<noteq> ReplacementChar
                       then map_option ((@) (encode_rune dec)) (unquote (drop 11 cs))
                       else map_option ((@) (encode_rune ReplacementChar)) (unquote (drop 5 cs)))
                    else map_option ((@) (encode_rune rr)) (unquote (drop 5 cs)))
             else None)
      else if c = CHR ''"'' \<or> byte c < 0x20 then None
      else if byte c < 0x80 then map_option ((#) c) (unquote cs)
      else
        let n = rune_len (c # cs) in
        if n = 0 then map_option ((@) (encode_rune ReplacementChar)) (unquote cs)
        else map_option ((@) (take n (c # cs))) (unquote (drop (n - 1) cs)))\<close>
  by pat_completeness auto
termination
  by (relation "measure length") auto

text \<open>
  The name of a field matches a key when both are the same up to the case of letters;
  among the letters count the long s (U+017F) and the Kelvin sign (U+212A).
\<close>

function foldName :: "string \<Rightarrow> string" where
  "foldName [] = []"
| "foldName (c # cs) =
     (if 0x61 \<le> byte c \<and> byte c \<le> 0x7A then char_of (byte c - 0x20) # foldName cs
      else if take 2 (c # cs) = [CHR 0xC5, CHR 0xBF] then CHR ''S'' # foldName (drop 1 cs)
      else if take 3 (c # cs) = [CHR 0xE2, CHR 0x84, CHR 0xAA] then CHR ''K'' # foldName (drop 2 cs)
      else c # foldName cs)"
  by pat_completeness auto
termination
  by (relation "measure length") auto

text \<open>
  The members of an object whose text is valid, as the decoder walks them: the text of
  each key between its quotes, and the text of each value from its first byte to its
  last. \<open>MKeyWait\<close> before a key, \<open>MKey k esc\<close> in a key, \<open>MColon k\<close> before the colon,
  \<open>MValWait k\<close> before the value, \<open>MVal k v d\<close> in a value, \<open>d\<close> arrays and objects deep,
  \<open>MStr k v d esc\<close> in a string of the value, \<open>MAfter k v\<close> behind the value, \<open>MEnd\<close>
  behind the object.
\<close>

datatype mstate =
    MKeyWait | MKey string bool | MColon string | MValWait string
  | MVal string string nat | MStr string string nat bool | MAfter string string | MEnd

definition val_char :: "string \<Rightarrow> string \<Rightarrow> nat \<Rightarrow> char \<Rightarrow> mstate \<times> (string \<times> string) list" where
  \<open>val_char k v d c =
     (if c = CHR ''"'' then (MStr k (v @ [c]) d False, [])
      else if c = CHR ''{'' \<or> c = CHR ''['' then (MVal k (v @ [c]) (Suc d), [])
      else if c = CHR ''}'' \<or> c = CHR '']'' then
        (if d = 0 then (MEnd, [(k, v)])
         else if d = 1 then (MAfter k (v @ [c]), [])
         else (MVal k (v @ [c]) (d - 1), []))
      else if c = CHR '','' \<and> d = 0 then (MKeyWait, [(k, v)])
      else if isSpace c \<and> d = 0 then (MAfter k v, [])
      else (MVal k (v @ [c]) d, []))\<close>

fun member_step :: "mstate \<Rightarrow> char \<Rightarrow> mstate \<times> (string \<times> string) list" where
  \<open>member_step MKeyWait c =
     (if c = CHR ''"'' then (MKey [] False, [])
      else if c = CHR ''}'' then (MEnd, [])
      else (MKeyWait, []))\<close>
| \<open>member_step (MKey k esc) c =
     (if esc then (MKey (k @ [c]) False, [])
      else if c = CHR 0x5C then (MKey (k @ [c]) True, [])
      else if c = CHR ''"'' then (MColon k, [])
      else (MKey (k @ [c]) False, []))\<close>
| \<open>member_step (MColon k) c = (if c = CHR '':'' then (MValWait k, []) else (MColon k, []))\<close>
| \<open>member_step (MValWait k) c = (if isSpace c then (MValWait k, []) else val_char k [] 0 c)\<close>
| \<open>member_step (MVal k v d) c = val_char k v d c\<close>
| \<open>member_step (MStr k v d esc) c =
     (if esc then (MStr k (v @ [c]) d False, [])
      else if c = CHR 0x5C then (MStr k (v @ [c]) d True, [])
      else if c = CHR ''"'' then (if d = 0 then (MAfter k (v @ [c]), []) else (MVal k (v @ [c]) d, []))
      else (MStr k (v @ [c]) d False, []))\<close>
| \<open>member_step (MAfter k v) c =
     (if c = CHR '','' then (MKeyWait, [(k, v)])
      else if c = CHR ''}'' then (MEnd, [(k, v)])
      else (MAfter k v, []))\<close>
| \<open>member_step MEnd c = (MEnd, [])\<close>

fun members :: "mstate \<Rightarrow> string \<Rightarrow> (string \<times> string) list" where
  "members st [] = []"
| "members st (c # cs) = (case member_step st c of (st', out) \<Rightarrow> out @ members st' cs)"

text \<open>strconv.ParseInt in base 10 and 64 bits, on the text of a JSON number.\<close>

definition parseInt :: "string \<Rightarrow> int option" where
  \<open>parseInt s =
     (let neg = (take 1 s = ''-'');
          ds = (if neg then drop 1 s else s);
          n = foldl (\<lambda>a c. 10 * a + (int (byte c) - 0x30)) 0 ds;
          v = (if neg then - n else n)
      in if ds = [] \<or> \<not> list_all isDigit ds then None
         else if - (2 ^ 63) \<le> v \<and> v < 2 ^ 63 then Some v
         else None)\<close>

text \<open>
  What the decoder stores in a field of kind string and in one of kind int from the
  text of a value. A \<open>null\<close> leaves the field as it is.
\<close>

definition store_string :: "string \<Rightarrow> string \<Rightarrow> error + string" where
  \<open>store_string old v =
     (if take 1 v = ''n'' then Inr old
      else if take 1 v = ''"'' then
        (case unquote (butlast (tl v)) of Some s \<Rightarrow> Inr s | None \<Rightarrow> Inl SyntaxError)
      else Inl UnmarshalTypeError)\<close>

definition store_int :: "int \<Rightarrow> string \<Rightarrow> error + int" where
  \<open>store_int old v =
     (if take 1 v = ''n'' then Inr old
      else if take 1 v = ''-'' \<or> list_all isDigit (take 1 v) then
        (case parseInt v of Some i \<Rightarrow> Inr i | None \<Rightarrow> Inl UnmarshalTypeError)
      else Inl UnmarshalTypeError)\<close>

text \<open>
  One member of the object, decoded into a Response by the tags of its fields; a key
  that matches no field is skipped. \<open>Data\<close>, a RawMessage, takes the text of the value.
\<close>

definition store_member :: "Response \<Rightarrow> string \<times> string \<Rightarrow> error + Response" where
  \<open>store_member resp m =
     (case m of (k, v) \<Rightarrow>
        (case unquote k of
           None \<Rightarrow> Inl SyntaxError
         | Some key \<Rightarrow>
             if foldName key = foldName ''error'' then
               (case store_string (Err resp) v of
                  Inl e \<Rightarrow> Inl e | Inr s \<Rightarrow> Inr (resp\<lparr>Err := s\<rparr>))
             else if foldName key = foldName ''data'' then Inr (resp\<lparr>Data := v\<rparr>)
             else if foldName key = foldName ''event'' then
               (case store_string (Event resp) v of
                  Inl e \<Rightarrow> Inl e | Inr s \<Rightarrow> Inr (resp\<lparr>Event := s\<rparr>))
             else if foldName key = foldName ''request_id'' then
               (case store_int (Response.RequestID resp) v of
                  Inl e \<Rightarrow> Inl e | Inr i \<Rightarrow> Inr (resp\<lparr>Response.RequestID := i\<rparr>))
             else Inr resp))\<close>

fun store_members :: "Response \<Rightarrow> (string \<times> string) list \<Rightarrow> error + Response" where
  "store_members resp [] = Inr resp"
| "store_members resp (m # ms) =
     (case store_member resp m of Inl e \<Rightarrow> Inl e | Inr resp' \<Rightarrow> store_members resp' ms)"

text \<open>\<open>var resp Response\<close>.\<close>

definition zero_Response :: Response where
  "zero_Response = \<lparr>Err = [], Data = [], Event = [], RequestID = 0\<rparr>"

text \<open>
  json.Unmarshal into a zero Response: the text is checked first; an object is decoded
  member by member, \<open>null\<close> changes nothing, any other value is of the wrong type.
\<close>

definition Unmarshal_Response :: "string \<Rightarrow> error + Response" where
  \<open>Unmarshal_Response data =
     (if \<not> checkValid data then Inl SyntaxError
      else case dropWhile isSpace data of
        [] \<Rightarrow> Inl SyntaxError
      | c # rest \<Rightarrow>
          if c = CHR ''{'' then store_members zero_Response (members MKeyWait rest)
          else if c = CHR ''n'' then Inr zero_Response
          else Inl UnmarshalTypeError)\<close>


text \<open>The library as the loops call it.\<close>

definition encoding_json :: json where
  "encoding_json = \<lparr>Marshal = Marshal_request, Unmarshal = Unmarshal_Response\<rparr>"

section \<open>The goroutines\<close>

text \<open>
  Where each goroutine stands.

  writeloop: \<open>WTop\<close> before the first select of an iteration, \<open>WRecv\<close> before the second,
  \<open>WParked\<close> blocked in the second, \<open>WHave req\<close> after it has received \<open>req\<close> (before
  json.Marshal), \<open>WExit e\<close> returned \<open>e\<close>.

  readloop: \<open>RTop\<close> before the select of an iteration, \<open>RRead\<close> in ReadBytes,
  \<open>RSend req resp\<close> in dispatch before its select (the entry has been deleted from
  reqMap), \<open>RParked req resp\<close> blocked in that select, \<open>RExit\<close> returned.

  A call of Exec: \<open>CIdle\<close> not started, \<open>CSend req\<close> blocked in the first select,
  \<open>CSent req\<close> the request has been handed over (before the second select),
  \<open>CRecv req\<close> blocked in the second select, \<open>CDone (res, err)\<close> returned \<open>res, err\<close>
  (\<open>None\<close> is nil).
\<close>

datatype wloop = WTop | WRecv | WParked | WHave request | WExit error

datatype rloop = RTop | RRead | RSend request Response | RParked request Response | RExit

datatype call =
  CIdle | CSend request | CSent request | CRecv request
  | CDone "Response option \<times> error option"

text \<open>
  The state of one client and of the goroutines around it.
  \<open>cx\<close> is \<open>None\<close> while the context is live and \<open>Some e\<close> once \<open>Done()\<close> is closed, \<open>e\<close>
  being what \<open>Err()\<close> returns. \<open>written\<close> lists the byte slices that \<open>conn.Write\<close> has sent.
  \<open>chans\<close> holds the buffer of every reply channel and \<open>nchan\<close> the number of channels
  made. \<open>sendq\<close> lists the calls blocked sending on \<open>comm\<close>, oldest first, each with its
  request; \<open>recvq ch\<close> is the call blocked receiving on \<open>ch\<close>.
\<close>

record IPCClient =
  cx :: "error option"
  conn_closed :: bool
  written :: "string list"
  reqMap :: "int \<rightharpoonup> request"
  chans :: "chan \<Rightarrow> Response list"
  nchan :: nat
  sendq :: "(nat \<times> request) list"
  recvq :: "chan \<rightharpoonup> nat"
  wl :: wloop
  rl :: rloop
  calls :: "nat \<Rightarrow> call"

text \<open>
  A select whose cases are not ready blocks; the goroutine is then resumed by the
  goroutine that makes one of its cases ready, with that case. A select that finds
  several cases ready takes one of them pseudo-randomly: \<open>pick\<close> says which kind the
  choice favours.
\<close>

datatype pick = PickComm | PickDone

subsection \<open>The context and Close\<close>

text \<open>
  Closing \<open>Done()\<close> resumes every goroutine blocked in a select that names it: a call
  returns \<open>nil, c.cx.Err()\<close>, writeloop returns \<open>cx.Err()\<close>, dispatch returns to readloop.
  A context that is done stays as it is.
\<close>

definition wake_call :: "error \<Rightarrow> call \<Rightarrow> call" where
  "wake_call e p =
     (case p of
        CSend req \<Rightarrow> CDone (None, Some e)
      | CRecv req \<Rightarrow> CDone (None, Some e)
      | _ \<Rightarrow> p)"

definition cancel :: "error \<Rightarrow> IPCClient \<Rightarrow> IPCClient" where
  "cancel e s =
     (if cx s \<noteq> None then s
      else s\<lparr>cx := Some e,
             wl := (if wl s = WParked then WExit e else wl s),
             rl := (case rl s of RParked req resp \<Rightarrow> RTop | p \<Rightarrow> p),
             calls := (\<lambda>i. wake_call e (calls s i)),
             sendq := [],
             recvq := Map.empty\<rparr>)"

text \<open>Close: \<open>c.cancel()\<close>, then \<open>c.conn.Close()\<close>.\<close>

definition Close :: "IPCClient \<Rightarrow> IPCClient" where
  "Close s = (cancel Canceled s)\<lparr>conn_closed := True\<rparr>"

subsection \<open>readloop and dispatch\<close>

text \<open>The select that opens an iteration of readloop.\<close>

definition readloop_select :: "IPCClient \<Rightarrow> IPCClient" where
  "readloop_select s =
     (if rl s \<noteq> RTop then s
      else if cx s \<noteq> None then s\<lparr>rl := RExit\<rparr>
      else s\<lparr>rl := RRead\<rparr>)"

text \<open>
  dispatch up to its select: the lookup and the delete, under the mutex.
\<close>

definition dispatch :: "Response \<Rightarrow> IPCClient \<Rightarrow> IPCClient" where
  "dispatch resp s =
     (if Event resp = [] then
        (case reqMap s (Response.RequestID resp) of
           Some req \<Rightarrow>
             s\<lparr>reqMap := (reqMap s)(Response.RequestID resp := None), rl := RSend req resp\<rparr>
         | None \<Rightarrow> s\<lparr>rl := RTop\<rparr>)
      else s\<lparr>rl := RTop\<rparr>)"

text \<open>
  The rest of an iteration of readloop: \<open>res\<close> is what ReadBytes returns, an error or
  the line.
\<close>

definition readloop_read :: "json \<Rightarrow> error + string \<Rightarrow> IPCClient \<Rightarrow> IPCClient" where
  "readloop_read J res s =
     (if rl s \<noteq> RRead then s
      else case res of
        Inl err \<Rightarrow> s\<lparr>rl := RTop\<rparr>
      | Inr data \<Rightarrow>
          (case Unmarshal J data of
             Inl err \<Rightarrow> s\<lparr>rl := RTop\<rparr>
           | Inr resp \<Rightarrow> dispatch resp s))"

text \<open>
  A send on a reply channel: to the call blocked receiving on it, which then returns
  from Exec through \<open>return res, nil\<close>, or else into the buffer.
\<close>

definition deliver :: "chan \<Rightarrow> Response \<Rightarrow> IPCClient \<Rightarrow> IPCClient" where
  "deliver ch resp s =
     (case recvq s ch of
        Some i \<Rightarrow> s\<lparr>calls := (calls s)(i := CDone (Some resp, None)),
                     recvq := (recvq s)(ch := None)\<rparr>
      | None \<Rightarrow> s\<lparr>chans := (chans s)(ch := chans s ch @ [resp])\<rparr>)"

text \<open>The select of dispatch: \<open>req.Response <- resp\<close> or \<open><-cx.Done()\<close>.\<close>

definition dispatch_select :: "pick \<Rightarrow> IPCClient \<Rightarrow> IPCClient" where
  "dispatch_select p s =
     (case rl s of
        RSend req resp \<Rightarrow>
          (let ch = Response req;
               can_send = (recvq s ch \<noteq> None \<or> length (chans s ch) < 1);
               can_done = (cx s \<noteq> None)
           in if can_send \<and> (p = PickComm \<or> \<not> can_done) then (deliver ch resp s)\<lparr>rl := RTop\<rparr>
              else if can_done then s\<lparr>rl := RTop\<rparr>
              else s\<lparr>rl := RParked req resp\<rparr>)
      | _ \<Rightarrow> s)"

subsection \<open>writeloop\<close>

text \<open>The select that opens an iteration of writeloop.\<close>

definition writeloop_select :: "IPCClient \<Rightarrow> IPCClient" where
  "writeloop_select s =
     (if wl s \<noteq> WTop then s
      else case cx s of
        Some e \<Rightarrow> s\<lparr>wl := WExit e\<rparr>
      | None \<Rightarrow> s\<lparr>wl := WRecv\<rparr>)"

text \<open>
  The second select: a receive from \<open>comm\<close>, from the oldest call blocked sending,
  or \<open><-cx.Done()\<close>. No statement of the package closes \<open>comm\<close>, so \<open>ok\<close> is true.
\<close>

definition writeloop_recv :: "pick \<Rightarrow> IPCClient \<Rightarrow> IPCClient" where
  "writeloop_recv p s =
     (if wl s \<noteq> WRecv then s
      else case sendq s of
        (i, req) # q \<Rightarrow>
          (if p = PickComm \<or> cx s = None
           then s\<lparr>wl := WHave req, calls := (calls s)(i := CSent req), sendq := q\<rparr>
           else (case cx s of Some e \<Rightarrow> s\<lparr>wl := WExit e\<rparr> | None \<Rightarrow> s))
      | [] \<Rightarrow>
          (case cx s of
             Some e \<Rightarrow> s\<lparr>wl := WExit e\<rparr>
           | None \<Rightarrow> s\<lparr>wl := WParked\<rparr>))"

text \<open>
  The rest of the iteration: json.Marshal, the entry in reqMap, the newline and
  conn.Write. \<open>wok\<close> says whether the write succeeds on an open connection; its error is
  dropped by the source.
\<close>

definition writeloop_write :: "json \<Rightarrow> bool \<Rightarrow> IPCClient \<Rightarrow> IPCClient" where
  "writeloop_write J wok s =
     (case wl s of
        WHave req \<Rightarrow>
          (case Marshal J req of
             Inl err \<Rightarrow> s\<lparr>wl := WTop\<rparr>
           | Inr b \<Rightarrow>
               s\<lparr>reqMap := (reqMap s)(request.RequestID req \<mapsto> req),
                 written := (if wok \<and> \<not> conn_closed s then written s @ [b @ [CHR 0x0A]]
                             else written s),
                 wl := WTop\<rparr>)
      | _ \<Rightarrow> s)"

subsection \<open>Exec\<close>

text \<open>
  Exec up to the end of its first select. The timer has just been made, so its case is
  not ready when the select is entered. The send on \<open>comm\<close> is ready when writeloop is
  blocked in its receive.
\<close>

definition Exec_send :: "nat \<Rightarrow> arg list \<Rightarrow> nat \<Rightarrow> pick \<Rightarrow> IPCClient \<Rightarrow> IPCClient" where
  "Exec_send i command r p s =
     (if calls s i \<noteq> CIdle then s
      else
        let ch = nchan s;
            req = newRequest command r ch;
            s1 = s\<lparr>nchan := Suc ch, chans := (chans s)(ch := [])\<rparr>;
            can_send = (wl s = WParked);
            can_done = (cx s \<noteq> None)
        in if can_send \<and> (p = PickComm \<or> \<not> can_done)
           then s1\<lparr>wl := WHave req, calls := (calls s)(i := CSent req)\<rparr>
           else if can_done then s1\<lparr>calls := (calls s)(i := CDone (None, cx s))\<rparr>
           else s1\<lparr>calls := (calls s)(i := CSend req), sendq := sendq s @ [(i, req)]\<rparr>)"

text \<open>What Exec returns from the case \<open>res, ok := <-req.Response\<close>.\<close>

definition Exec_reply :: "Response option \<times> bool \<Rightarrow> Response option \<times> error option" where
  "Exec_reply r = (case r of (res, ok) \<Rightarrow> if \<not> ok then (None, Some ChannelErr) else (res, None))"

text \<open>
  A receive from the buffer of a reply channel makes room for a sender blocked on it.
\<close>

definition take_reply :: "chan \<Rightarrow> IPCClient \<Rightarrow> IPCClient" where
  "take_reply ch s =
     (let s1 = s\<lparr>chans := (chans s)(ch := tl (chans s ch))\<rparr>
      in case rl s of
           RParked req resp \<Rightarrow>
             (if Response req = ch
              then s1\<lparr>chans := (chans s1)(ch := chans s1 ch @ [resp]), rl := RTop\<rparr>
              else s1)
         | _ \<Rightarrow> s1)"

text \<open>
  Exec from the new timer to the end of its second select. No statement of the package
  closes a reply channel, so a receive finds \<open>ok\<close> true.
\<close>

definition Exec_recv :: "nat \<Rightarrow> pick \<Rightarrow> IPCClient \<Rightarrow> IPCClient" where
  "Exec_recv i p s =
     (case calls s i of
        CSent req \<Rightarrow>
          (let ch = Response req;
               can_done = (cx s \<noteq> None)
           in case chans s ch of
                res # buf \<Rightarrow>
                  (if p = PickComm \<or> \<not> can_done
                   then (take_reply ch s)\<lparr>calls := (calls s)(i := CDone (Exec_reply (Some res, True)))\<rparr>
                   else s\<lparr>calls := (calls s)(i := CDone (None, cx s))\<rparr>)
              | [] \<Rightarrow>
                  (if can_done then s\<lparr>calls := (calls s)(i := CDone (None, cx s))\<rparr>
                   else s\<lparr>calls := (calls s)(i := CRecv req), recvq := (recvq s)(ch \<mapsto> i)\<rparr>))
      | _ \<Rightarrow> s)"

text \<open>The timer of a blocked call fires.\<close>

definition timer_fire :: "nat \<Rightarrow> IPCClient \<Rightarrow> IPCClient" where
  "timer_fire i s =
     (case calls s i of
        CSend req \<Rightarrow>
          s\<lparr>calls := (calls s)(i := CDone (None, Some ErrTimeoutSend)),
            sendq := filter (\<lambda>e. fst e \<noteq> i) (sendq s)\<rparr>
      | CRecv req \<Rightarrow>
          s\<lparr>calls := (calls s)(i := CDone (None, Some ErrTimeoutRecv)),
            recvq := (recvq s)(Response req := None)\<rparr>
      | _ \<Rightarrow> s)"

subsection \<open>Runs\<close>

text \<open>
  One step of one goroutine, or of what surrounds the client: the parent context ends,
  a timer fires, a read returns.
\<close>

datatype label =
    Cancel error
  | DoClose
  | ReaderSelect
  | ReaderRead "error + string"
  | ReaderSend pick
  | WriterSelect
  | WriterRecv pick
  | WriterWrite bool
  | ExecSend nat "arg list" nat pick
  | ExecRecv nat pick
  | TimerFire nat

fun step :: "json \<Rightarrow> label \<Rightarrow> IPCClient \<Rightarrow> IPCClient" where
  "step J (Cancel e) s = cancel e s"
| "step J DoClose s = Close s"
| "step J ReaderSelect s = readloop_select s"
| "step J (ReaderRead res) s = readloop_read J res s"
| "step J (ReaderSend p) s = dispatch_select p s"
| "step J WriterSelect s = writeloop_select s"
| "step J (WriterRecv p) s = writeloop_recv p s"
| "step J (WriterWrite wok) s = writeloop_write J wok s"
| "step J (ExecSend i command r p) s = Exec_send i command r p s"
| "step J (ExecRecv i p) s = Exec_recv i p s"
| "step J (TimerFire i) s = timer_fire i s"

fun run :: "json \<Rightarrow> label list \<Rightarrow> IPCClient \<Rightarrow> IPCClient" where
  "run J [] s = s"
| "run J (l # ls) s = run J ls (step J l s)"

text \<open>The client as NewIPCClient leaves it, both loops started.\<close>

definition init :: IPCClient where
  "init = \<lparr>cx = None, conn_closed = False, written = [], reqMap = Map.empty,
           chans = (\<lambda>ch. []), nchan = 0, sendq = [], recvq = Map.empty,
           wl = WTop, rl = RTop, calls = (\<lambda>i. CIdle)\<rparr>"

section \<open>Decoding a request\<close>

text \<open>
  Modelled from the spec: the decoder of an outbound line. The package only encodes
  requests (mpv reads them), so the decoder of the round-trip law is not in the source.
  The spec gives the outbound object as \<open>{"command": [...], "request_id": <int>}\<close>, a
  command as an ordered sequence of strings, numbers and booleans, and has decode fail on
  malformed input. The decoder below reads such a line as json.Unmarshal would read it
  into a request: the same scanner, the same walk over the members, \<open>command\<close> decoded
  element by element and \<open>request_id\<close> as an int. A number of the command is read as
  the integer it is written as; an element that is neither a string, an integer nor a
  boolean is refused.
\<close>

text \<open>
  The elements of an array whose text is valid, from behind its opening bracket:
  \<open>EWait\<close> before an element, \<open>EVal v d\<close> in one, \<open>EStr v d esc\<close> in a string of it,
  \<open>EAfter v\<close> behind it, \<open>EEnd\<close> behind the array.
\<close>

datatype estate = EWait | EVal string nat | EStr string nat bool | EAfter string | EEnd

definition elem_char :: "string \<Rightarrow> nat \<Rightarrow> char \<Rightarrow> estate \<times> string list" where
  \<open>elem_char v d c =
     (if c = CHR ''"'' then (EStr (v @ [c]) d False, [])
      else if c = CHR ''{'' \<or> c = CHR ''['' then (EVal (v @ [c]) (Suc d), [])
      else if c = CHR ''}'' \<or> c = CHR '']'' then
        (if d = 0 then (EEnd, [v])
         else if d = 1 then (EAfter (v @ [c]), [])
         else (EVal (v @ [c]) (d - 1), []))
      else if c = CHR '','' \<and> d = 0 then (EWait, [v])
      else if isSpace c \<and> d = 0 then (EAfter v, [])
      else (EVal (v @ [c]) d, []))\<close>

fun element_step :: "estate \<Rightarrow> char \<Rightarrow> estate \<times> string list" where
  \<open>element_step EWait c =
     (if isSpace c then (EWait, [])
      else if c = CHR '']'' then (EEnd, [])
      else elem_char [] 0 c)\<close>
| \<open>element_step (EVal v d) c = elem_char v d c\<close>
| \<open>element_step (EStr v d esc) c =
     (if esc then (EStr (v @ [c]) d False, [])
      else if c = CHR 0x5C then (EStr (v @ [c]) d True, [])
      else if c = CHR ''"'' then (if d = 0 then (EAfter (v @ [c]), []) else (EVal (v @ [c]) d, []))
      else (EStr (v @ [c]) d False, []))\<close>
| \<open>element_step (EAfter v) c =
     (if c = CHR '','' then (EWait, [v])
      else if c = CHR '']'' then (EEnd, [v])
      else (EAfter v, []))\<close>
| \<open>element_step EEnd c = (EEnd, [])\<close>

fun elements :: "estate \<Rightarrow> string \<Rightarrow> string list" where
  "elements st [] = []"
| "elements st (c # cs) = (case element_step st c of (st', out) \<Rightarrow> out @ elements st' cs)"

text \<open>One element of the command, from its text.\<close>

definition decode_arg :: "string \<Rightarrow> error + arg" where
  \<open>decode_arg v =
     (if take 1 v = ''"'' then
        (case unquote (butlast (tl v)) of Some s \<Rightarrow> Inr (AString s) | None \<Rightarrow> Inl SyntaxError)
      else if v = ''true'' then Inr (ABool True)
      else if v = ''false'' then Inr (ABool False)
      else if take 1 v = ''-'' \<or> list_all isDigit (take 1 v) then
        (case parseInt v of Some i \<Rightarrow> Inr (AInt i) | None \<Rightarrow> Inl UnmarshalTypeError)
      else Inl UnmarshalTypeError)\<close>

fun decode_args :: "string list \<Rightarrow> error + arg list" where
  "decode_args [] = Inr []"
| "decode_args (v # vs) =
     (case decode_arg v of
        Inl e \<Rightarrow> Inl e
      | Inr a \<Rightarrow> (case decode_args vs of Inl e \<Rightarrow> Inl e | Inr as \<Rightarrow> Inr (a # as)))"

text \<open>The value of \<open>command\<close>: \<open>null\<close> leaves the slice nil, an array is decoded.\<close>

definition store_command :: "arg list \<Rightarrow> string \<Rightarrow> error + arg list" where
  \<open>store_command old v =
     (if take 1 v = ''n'' then Inr old
      else if take 1 v = ''['' then decode_args (elements EWait (tl v))
      else Inl UnmarshalTypeError)\<close>

text \<open>One member of the object, decoded into the command and the id by the tags.\<close>

definition store_request_member ::
  "arg list \<times> int \<Rightarrow> string \<times> string \<Rightarrow> error + arg list \<times> int" where
  \<open>store_request_member r m =
     (case r of (cmd, i) \<Rightarrow> (case m of (k, v) \<Rightarrow>
        (case unquote k of
           None \<Rightarrow> Inl SyntaxError
         | Some key \<Rightarrow>
             if foldName key = foldName ''command'' then
               (case store_command cmd v of Inl e \<Rightarrow> Inl e | Inr cmd' \<Rightarrow> Inr (cmd', i))
             else if foldName key = foldName ''request_id'' then
               (case store_int i v of Inl e \<Rightarrow> Inl e | Inr i' \<Rightarrow> Inr (cmd, i'))
             else Inr r)))\<close>

fun store_request_members ::
  "arg list \<times> int \<Rightarrow> (string \<times> string) list \<Rightarrow> error + arg list \<times> int" where
  "store_request_members r [] = Inr r"
| "store_request_members r (m # ms) =
     (case store_request_member r m of
        Inl e \<Rightarrow> Inl e
      | Inr r' \<Rightarrow> store_request_members r' ms)"

text \<open>The command and the id that a line carries.\<close>

definition decode_request :: "string \<Rightarrow> error + arg list \<times> int" where
  \<open>decode_request data =
     (if \<not> checkValid data then Inl SyntaxError
      else case dropWhile isSpace data of
        [] \<Rightarrow> Inl SyntaxError
      | c # rest \<Rightarrow>
          if c = CHR ''{'' then store_request_members ([], 0) (members MKeyWait rest)
          else if c = CHR ''n'' then Inr ([], 0)
          else Inl UnmarshalTypeError)\<close>

text \<open>
  The text of a string is UTF-8 when it is a sequence of encodings that utf8.DecodeRune
  accepts.
\<close>

function valid_utf8 :: "string \<Rightarrow> bool" where
  "valid_utf8 [] = True"
| "valid_utf8 (c # cs) =
     (rune_len (c # cs) \<noteq> 0 \<and> valid_utf8 (drop (rune_len (c # cs) - 1) cs))"
  by pat_completeness auto
termination
  by (relation "measure length") auto

text \<open>An int of Go has 64 bits.\<close>

definition is_int64 :: "int \<Rightarrow> bool" where
  "is_int64 i = (- (2 ^ 63) \<le> i \<and> i < 2 ^ 63)"

text \<open>
  The requests the wire format can carry: the arguments are strings in UTF-8, ints and
  booleans, and the id is an int.
\<close>

fun representable_arg :: "arg \<Rightarrow> bool" where
  "representable_arg (AString s) = valid_utf8 s"
| "representable_arg (AInt i) = is_int64 i"
| "representable_arg (ABool b) = True"
| "representable_arg AUnsupported = False"

definition representable :: "request \<Rightarrow> bool" where
  "representable req =
     (list_all representable_arg (Command req) \<and> is_int64 (request.RequestID req))"

text \<open>The walks over members and elements, as the state they end in.\<close>

fun member_run :: "mstate \<Rightarrow> string \<Rightarrow> mstate" where
  "member_run st [] = st"
| "member_run st (c # cs) = member_run (fst (member_step st c)) cs"

fun element_run :: "estate \<Rightarrow> string \<Rightarrow> estate" where
  "element_run st [] = st"
| "element_run st (c # cs) = element_run (fst (element_step st c)) cs"

section \<open>Properties\<close>

subsection \<open>What the properties speak of\<close>

text \<open>
  What Exec may return under a context in state \<open>c\<close>: a Response and no error, or no
  Response and one of the three errors of the package or the error of the context.
\<close>

definition result_ok :: "error option \<Rightarrow> Response option \<times> error option \<Rightarrow> bool" where
  "result_ok c r =
     (case r of
        (Some x, None) \<Rightarrow> True
      | (None, Some e) \<Rightarrow> e = ErrTimeoutSend \<or> e = ErrTimeoutRecv \<or> e = ChannelErr \<or> c = Some e
      | _ \<Rightarrow> False)"

definition returns_ok :: "IPCClient \<Rightarrow> bool" where
  "returns_ok s = (\<forall>i r. calls s i = CDone r \<longrightarrow> result_ok (cx s) r)"

text \<open>Once the context is done no goroutine is blocked in a select that names it.\<close>

definition done_wakes :: "IPCClient \<Rightarrow> bool" where
  "done_wakes s = (cx s \<noteq> None \<longrightarrow> wl s \<noteq> WParked \<and> sendq s = [] \<and> recvq s = Map.empty)"

text \<open>
  A client with one call under way: \<open>get_property pause\<close> has been written with the id 7,
  the call waits for its reply and readloop is in ReadBytes.
\<close>

definition pending :: IPCClient where
  "pending = run encoding_json
     [WriterSelect, WriterRecv PickComm,
      ExecSend 0 [AString ''get_property'', AString ''pause''] 7 PickComm,
      WriterWrite True, ExecRecv 0 PickComm, ReaderSelect] init"


text \<open>
  GetProperty of client.go, from what Exec returned; \<open>Sprintf\<close> stands for the formatting
  of \<open>res.Data\<close>.
\<close>

definition GetProperty ::
  "(string \<Rightarrow> string) \<Rightarrow> Response option \<times> error option \<Rightarrow> string \<times> error option" where
  "GetProperty Sprintf r =
     (case r of
        (None, err) \<Rightarrow> ([], err)
      | (Some res, err) \<Rightarrow> (Sprintf (Data res), err))"

subsection \<open>Evaluation and invariants\<close>

lemmas step_defs =
  cancel_def Close_def wake_call_def readloop_select_def readloop_read_def dispatch_def
  dispatch_select_def deliver_def writeloop_select_def writeloop_recv_def writeloop_write_def
  Exec_send_def Exec_recv_def Exec_reply_def take_reply_def timer_fire_def newRequest_def
  rand_Intn_def encoding_json_def init_def Let_def

lemma unm_event:
  \<open>Unmarshal_Response ''{"event":"pause","request_id":0}\<newline>'' =
     Inr \<lparr>Err = [], Data = [], Event = ''pause'', RequestID = 0\<rparr>\<close>
  by code_simp


lemma unm_reply:
  \<open>Unmarshal_Response ''{"error":"success","data":false,"request_id":7}\<newline>'' =
     Inr \<lparr>Err = ''success'', Data = ''false'', Event = [], RequestID = 7\<rparr>\<close>
  by code_simp

lemma mar_get:
  \<open>Marshal_request
     \<lparr>Command = [AString ''get_property'', AString ''pause''], RequestID = 7, Response = ch\<rparr> =
     Inr ''{"command":["get_property","pause"],"request_id":7}''\<close>
  by code_simp

lemma result_ok_simps [simp]:
  "result_ok c (Some x, None)"
  "result_ok c (None, Some ErrTimeoutSend)"
  "result_ok c (None, Some ErrTimeoutRecv)"
  "result_ok c (None, Some ChannelErr)"
  "result_ok (Some e) (None, Some e)"
  by (simp_all add: result_ok_def)

lemma result_ok_None: "result_ok None r \<Longrightarrow> result_ok c r"
  by (auto simp: result_ok_def split: option.splits prod.splits)

lemma returns_ok_init: "returns_ok init"
  by (simp add: returns_ok_def init_def)

lemma done_wakes_init: "done_wakes init"
  by (simp add: done_wakes_def init_def)

lemma returns_ok_cancel: "returns_ok s \<Longrightarrow> returns_ok (cancel e s)"
  unfolding returns_ok_def cancel_def wake_call_def
  by (auto split: call.splits intro: result_ok_None)

lemma returns_ok_step: "returns_ok s \<Longrightarrow> returns_ok (step J l s)"
proof (cases l)
  case (Cancel e)
  then show "returns_ok s \<Longrightarrow> ?thesis" by (simp add: returns_ok_cancel)
next
  case DoClose
  assume "returns_ok s"
  then have "returns_ok (cancel Canceled s)" by (rule returns_ok_cancel)
  then show ?thesis using DoClose by (simp add: Close_def returns_ok_def)
next
  case ReaderSelect
  then show "returns_ok s \<Longrightarrow> ?thesis" by (auto simp: readloop_select_def returns_ok_def)
next
  case (ReaderRead res)
  then show "returns_ok s \<Longrightarrow> ?thesis"
    by (auto simp: readloop_read_def dispatch_def returns_ok_def split: sum.splits option.splits)
next
  case (ReaderSend p)
  then show "returns_ok s \<Longrightarrow> ?thesis"
    unfolding returns_ok_def
    by (auto simp: dispatch_select_def deliver_def Let_def
          split: rloop.splits option.splits if_splits)
next
  case WriterSelect
  then show "returns_ok s \<Longrightarrow> ?thesis"
    by (auto simp: writeloop_select_def returns_ok_def split: option.splits)
next
  case (WriterRecv p)
  then show "returns_ok s \<Longrightarrow> ?thesis"
    unfolding returns_ok_def
    by (auto simp: writeloop_recv_def split: option.splits list.splits if_splits)
next
  case (WriterWrite wok)
  then show "returns_ok s \<Longrightarrow> ?thesis"
    unfolding returns_ok_def
    by (auto simp: writeloop_write_def split: wloop.splits sum.splits)
next
  case (ExecSend i command r p)
  then show "returns_ok s \<Longrightarrow> ?thesis"
    unfolding returns_ok_def
    by (auto simp: Exec_send_def Let_def split: if_splits)
next
  case (ExecRecv i p)
  then show "returns_ok s \<Longrightarrow> ?thesis"
    unfolding returns_ok_def
    by (auto simp: Exec_recv_def Exec_reply_def take_reply_def Let_def
          split: call.splits list.splits if_splits rloop.splits)
next
  case (TimerFire i)
  then show "returns_ok s \<Longrightarrow> ?thesis"
    unfolding returns_ok_def
    by (auto simp: timer_fire_def split: call.splits if_splits)
qed

lemma returns_ok_run: "returns_ok s \<Longrightarrow> returns_ok (run J ls s)"
  by (induction ls arbitrary: s) (simp_all add: returns_ok_step)

lemma done_wakes_step: "done_wakes s \<Longrightarrow> done_wakes (step J l s)"
  unfolding done_wakes_def
  by (cases l)
     (auto simp: cancel_def Close_def readloop_select_def readloop_read_def dispatch_def
        dispatch_select_def deliver_def writeloop_select_def writeloop_recv_def writeloop_write_def
        Exec_send_def Exec_recv_def take_reply_def timer_fire_def Let_def
      split: option.splits sum.splits rloop.splits wloop.splits call.splits list.splits if_splits)

lemma done_wakes_run: "done_wakes s \<Longrightarrow> done_wakes (run J ls s)"
  by (induction ls arbitrary: s) (simp_all add: done_wakes_step)

lemma done_wakes_Close: "done_wakes s \<Longrightarrow> done_wakes (Close s)"
  by (auto simp: done_wakes_def Close_def cancel_def)

lemma cx_step: "cx s = Some e \<Longrightarrow> cx (step J l s) = Some e"
  by (cases l)
     (auto simp: cancel_def Close_def readloop_select_def readloop_read_def dispatch_def
        dispatch_select_def deliver_def writeloop_select_def writeloop_recv_def writeloop_write_def
        Exec_send_def Exec_recv_def take_reply_def timer_fire_def Let_def
      split: option.splits sum.splits rloop.splits wloop.splits call.splits list.splits if_splits)

lemma cx_run: "cx s = Some e \<Longrightarrow> cx (run J ls s) = Some e"
  by (induction ls arbitrary: s) (simp_all add: cx_step)

lemma cx_Close: "cx (Close s) = (case cx s of None \<Rightarrow> Some Canceled | Some e \<Rightarrow> Some e)"
  by (simp add: Close_def cancel_def split: option.splits)

lemma pending_fields:
  "cx pending = None"
  "rl pending = RRead"
  "wl pending = WTop"
  "reqMap pending 7 =
     Some \<lparr>Command = [AString ''get_property'', AString ''pause''], RequestID = 7, Response = 0\<rparr>"
  "chans pending 0 = []"
  "recvq pending 0 = Some 0"
  "calls pending 0 =
     CRecv \<lparr>Command = [AString ''get_property'', AString ''pause''], RequestID = 7, Response = 0\<rparr>"
  \<open>written pending = [''{"command":["get_property","pause"],"request_id":7}\<newline>'']\<close>
  by (simp_all add: pending_def step_defs mar_get)

subsection \<open>readloop\<close>

text \<open>
  C5. A decoded message that carries an event name, or that carries none and an id that
  reqMap does not hold, changes nothing: dispatch returns with reqMap, every reply
  channel and every call as they were, and readloop goes on to its next iteration, where
  it reads again unless the context is done.
\<close>

theorem dispatch_frame:
  assumes "rl s = RRead" and "Unmarshal J data = Inr resp"
    and "Event resp \<noteq> [] \<or> reqMap s (Response.RequestID resp) = None"
  shows "dispatch resp s = s\<lparr>rl := RTop\<rparr> \<and>
         readloop_read J (Inr data) s = s\<lparr>rl := RTop\<rparr> \<and>
         run J [ReaderRead (Inr data), ReaderSelect] s =
           (if cx s = None then s else s\<lparr>rl := RExit\<rparr>)"
  using assms by (auto simp: dispatch_def readloop_read_def readloop_select_def)

theorem dispatch_frame_witness:
  \<open>rl pending = RRead \<and>
   Unmarshal encoding_json ''{"event":"pause","request_id":0}\<newline>'' =
     Inr \<lparr>Err = [], Data = [], Event = ''pause'', RequestID = 0\<rparr> \<and>
   reqMap pending 7 \<noteq> None \<and>
   run encoding_json [ReaderRead (Inr ''{"event":"pause","request_id":0}\<newline>''), ReaderSelect]
     pending = pending\<close>
proof -
  have a: "rl pending = RRead" and c: "cx pending = None" and m: "reqMap pending 7 \<noteq> None"
    by (simp_all add: pending_fields)
  have b: \<open>Unmarshal encoding_json ''{"event":"pause","request_id":0}\<newline>'' =
     Inr \<lparr>Err = [], Data = [], Event = ''pause'', RequestID = 0\<rparr>\<close>
    by (simp add: encoding_json_def unm_event)
  have d: \<open>Event \<lparr>Err = [], Data = [], Event = ''pause'', RequestID = 0\<rparr> \<noteq> [] \<or>
      reqMap pending
        (Response.RequestID \<lparr>Err = [], Data = [], Event = ''pause'', RequestID = 0\<rparr>) = None\<close>
    by simp
  have r: \<open>run encoding_json
      [ReaderRead (Inr ''{"event":"pause","request_id":0}\<newline>''), ReaderSelect] pending =
     (if cx pending = None then pending else pending\<lparr>rl := RExit\<rparr>)\<close>
    by (rule dispatch_frame [OF a b d, THEN conjunct2, THEN conjunct2])
  have \<open>run encoding_json
      [ReaderRead (Inr ''{"event":"pause","request_id":0}\<newline>''), ReaderSelect] pending =
     pending\<close>
    unfolding r using c by simp
  with a b m show ?thesis by (intro conjI)
qed



text \<open>
  C3. On an error of ReadBytes readloop does not return: the iteration ends through
  \<open>continue\<close>, nothing is dispatched in it, and the loop returns only at the select
  that opens an iteration, when the context is done. A line read afterwards is decoded
  and delivered like any other.
\<close>

theorem read_error_continues:
  assumes "rl s = RRead"
  shows "readloop_read J (Inl err) s = s\<lparr>rl := RTop\<rparr> \<and>
         run J [ReaderRead (Inl err), ReaderSelect] s =
           (if cx s = None then s else s\<lparr>rl := RExit\<rparr>)"
  using assms by (auto simp: readloop_read_def readloop_select_def)

theorem read_error_continues_witness:
  "rl pending = RRead \<and>
   readloop_read encoding_json (Inl IOError) pending = pending\<lparr>rl := RTop\<rparr> \<and>
   run encoding_json [ReaderRead (Inl IOError), ReaderSelect] pending = pending"
proof -
  have a: "rl pending = RRead" and c: "cx pending = None"
    by (simp_all add: pending_fields)
  note t = read_error_continues [OF a, of encoding_json IOError]
  have 1: "readloop_read encoding_json (Inl IOError) pending = pending\<lparr>rl := RTop\<rparr>"
    by (rule t [THEN conjunct1])
  have "run encoding_json [ReaderRead (Inl IOError), ReaderSelect] pending =
      (if cx pending = None then pending else pending\<lparr>rl := RExit\<rparr>)"
    by (rule t [THEN conjunct2])
  then have 2: "run encoding_json [ReaderRead (Inl IOError), ReaderSelect] pending = pending"
    using c by simp
  from a 1 2 show ?thesis by (intro conjI)
qed

text \<open>
  Against C3 as it stands: after a read error readloop has not returned, and the line
  it reads next is decoded and its reply handed to the waiting call.
\<close>

theorem read_error_counterexample:
  \<open>rl (run encoding_json [ReaderRead (Inl IOError)] pending) = RTop \<and>
   rl (run encoding_json [ReaderRead (Inl IOError), ReaderSelect] pending) = RRead \<and>
   calls (run encoding_json
            [ReaderRead (Inl IOError), ReaderSelect,
             ReaderRead (Inr ''{"error":"success","data":false,"request_id":7}\<newline>''),
             ReaderSend PickComm] pending) 0 =
     CDone (Some \<lparr>Err = ''success'', Data = ''false'', Event = [], RequestID = 7\<rparr>, None)\<close>
  by (simp add: pending_fields readloop_read_def readloop_select_def dispatch_def
        dispatch_select_def deliver_def encoding_json_def unm_reply)

subsection \<open>writeloop\<close>

lemma run_append: "run J (ls @ ls') s = run J ls' (run J ls s)"
  by (induction ls arbitrary: s) simp_all






subsection \<open>newRequest and the ids\<close>





subsection \<open>Exec\<close>

lemma returns_ok_reachable: "returns_ok (run J ls init)"
  by (rule returns_ok_run [OF returns_ok_init])

lemma result_ok_cases:
  assumes "result_ok c (res, err)"
  shows "(\<exists>r. res = Some r \<and> err = None) \<or>
         (res = None \<and>
            (err = Some ErrTimeoutSend \<or> err = Some ErrTimeoutRecv \<or> err = Some ChannelErr \<or>
             (err \<noteq> None \<and> err = c)))"
  using assms by (auto simp: result_ok_def split: option.splits)

lemma pending_reply:
  \<open>calls (run encoding_json
       [WriterSelect, WriterRecv PickComm,
        ExecSend 0 [AString ''get_property'', AString ''pause''] 7 PickComm,
        WriterWrite True, ExecRecv 0 PickComm, ReaderSelect,
        ReaderRead (Inr ''{"error":"success","data":false,"request_id":7}\<newline>''),
        ReaderSend PickComm] init) 0 =
     CDone (Some \<lparr>Err = ''success'', Data = ''false'', Event = [], RequestID = 7\<rparr>, None)\<close>
  by (simp add: step_defs mar_get unm_reply)

text \<open>
  C10. Whatever the goroutines and the surroundings do, a call of Exec that has returned
  has returned a Response exactly when it has returned no error. GetProperty, which
  looks at the Response only, therefore returns no error exactly when it had a Response
  to format.
\<close>

theorem Exec_response_iff_no_error:
  assumes "calls (run J ls init) i = CDone (res, err)"
  shows "(res \<noteq> None) = (err = None) \<and>
         (snd (GetProperty Sprintf (res, err)) = None) = (res \<noteq> None)"
proof -
  have "result_ok (cx (run J ls init)) (res, err)"
    using returns_ok_reachable assms unfolding returns_ok_def by blast
  then show ?thesis
    by (auto simp: result_ok_def GetProperty_def split: option.splits)
qed

theorem Exec_response_iff_no_error_witness:
  \<open>calls (run encoding_json
       [WriterSelect, WriterRecv PickComm,
        ExecSend 0 [AString ''get_property'', AString ''pause''] 7 PickComm,
        WriterWrite True, ExecRecv 0 PickComm, ReaderSelect,
        ReaderRead (Inr ''{"error":"success","data":false,"request_id":7}\<newline>''),
        ReaderSend PickComm] init) 0 =
     CDone (Some \<lparr>Err = ''success'', Data = ''false'', Event = [], RequestID = 7\<rparr>, None) \<and>
   (Some \<lparr>Err = ''success'', Data = ''false'', Event = [], RequestID = 7\<rparr> \<noteq> None) =
     ((None :: error option) = None) \<and>
   (snd (GetProperty id
          (Some \<lparr>Err = ''success'', Data = ''false'', Event = [], RequestID = 7\<rparr>, None)) = None) =
     (Some \<lparr>Err = ''success'', Data = ''false'', Event = [], RequestID = 7\<rparr> \<noteq> None)\<close>
  using Exec_response_iff_no_error [OF pending_reply, of id] pending_reply
  by (intro conjI) blast+

text \<open>
  C8. Once Close has returned, whatever happens next, a call of Exec that starts finds
  the context done and writeloop not waiting on \<open>comm\<close>: its first select takes the case
  of the context and the call returns \<open>nil\<close> and the context's error at once. The request
  is not queued and writeloop, reqMap and the connection are as they were.
\<close>

theorem Exec_after_Close:
  assumes "s = run J ls' (Close (run J ls init))" and "calls s i = CIdle"
  shows "cx s = cx (Close (run J ls init)) \<and> cx s \<noteq> None \<and> wl s \<noteq> WParked \<and>
         Exec_send i command r p s =
           s\<lparr>nchan := Suc (nchan s), chans := (chans s)(nchan s := []),
             calls := (calls s)(i := CDone (None, cx s))\<rparr>"
proof -
  let ?c = "Close (run J ls init)"
  obtain e where e: "cx ?c = Some e"
    by (cases "cx (run J ls init)") (simp_all add: cx_Close)
  have 1: "cx s = Some e"
    using assms(1) e by (simp add: cx_run)
  have "done_wakes s"
    unfolding assms(1)
    by (intro done_wakes_run done_wakes_Close done_wakes_init)
  with 1 have 2: "wl s \<noteq> WParked"
    by (simp add: done_wakes_def)
  from 1 2 assms(2) have "Exec_send i command r p s =
      s\<lparr>nchan := Suc (nchan s), chans := (chans s)(nchan s := []),
        calls := (calls s)(i := CDone (None, cx s))\<rparr>"
    by (simp add: Exec_send_def Let_def)
  with 1 2 e show ?thesis by simp
qed

theorem Exec_after_Close_witness:
  "calls (run encoding_json [WriterSelect] (Close pending)) 1 = CIdle \<and>
   cx (run encoding_json [WriterSelect] (Close pending)) = Some Canceled \<and>
   calls (Exec_send 1 [AString ''stop''] 3 PickComm
            (run encoding_json [WriterSelect] (Close pending))) 1 =
     CDone (None, Some Canceled) \<and>
   calls (run encoding_json [WriterSelect] (Close pending)) 0 = CDone (None, Some Canceled)"
proof -
  let ?s = "run encoding_json [WriterSelect] (Close pending)"
  have a: "?s = run encoding_json [WriterSelect] (Close (run encoding_json
     [WriterSelect, WriterRecv PickComm,
      ExecSend 0 [AString ''get_property'', AString ''pause''] 7 PickComm,
      WriterWrite True, ExecRecv 0 PickComm, ReaderSelect] init))"
    by (simp only: pending_def)
  have b: "calls ?s 1 = CIdle" and c: "cx ?s = Some Canceled"
    and d: "calls ?s 0 = CDone (None, Some Canceled)"
    by (simp_all add: pending_def step_defs mar_get)
  note t = Exec_after_Close [OF a b, of "[AString ''stop'']" 3 PickComm]
  have "Exec_send 1 [AString ''stop''] 3 PickComm ?s =
      ?s\<lparr>nchan := Suc (nchan ?s), chans := (chans ?s)(nchan ?s := []),
         calls := (calls ?s)(1 := CDone (None, cx ?s))\<rparr>"
    by (rule t [THEN conjunct2, THEN conjunct2, THEN conjunct2])
  then have "calls (Exec_send 1 [AString ''stop''] 3 PickComm ?s) 1 = CDone (None, cx ?s)"
    by simp
  with c have e: "calls (Exec_send 1 [AString ''stop''] 3 PickComm ?s) 1 = CDone (None, Some Canceled)"
    by simp
  from b c e d show ?thesis by (intro conjI)
qed

lemma buffered_fields:
  \<open>calls (run encoding_json
       [WriterSelect, WriterRecv PickComm,
        ExecSend 0 [AString ''get_property'', AString ''pause''] 7 PickComm,
        WriterWrite True, ReaderSelect,
        ReaderRead (Inr ''{"error":"success","data":false,"request_id":7}\<newline>''),
        ReaderSend PickComm] init) 0 =
     CSent (newRequest [AString ''get_property'', AString ''pause''] 7 0)\<close>
  \<open>chans (run encoding_json
       [WriterSelect, WriterRecv PickComm,
        ExecSend 0 [AString ''get_property'', AString ''pause''] 7 PickComm,
        WriterWrite True, ReaderSelect,
        ReaderRead (Inr ''{"error":"success","data":false,"request_id":7}\<newline>''),
        ReaderSend PickComm] init) 0 =
     [\<lparr>Err = ''success'', Data = ''false'', Event = [], RequestID = 7\<rparr>]\<close>
  \<open>cx (run encoding_json
       [WriterSelect, WriterRecv PickComm,
        ExecSend 0 [AString ''get_property'', AString ''pause''] 7 PickComm,
        WriterWrite True, ReaderSelect,
        ReaderRead (Inr ''{"error":"success","data":false,"request_id":7}\<newline>''),
        ReaderSend PickComm] init) = None\<close>
  by (simp_all add: step_defs mar_get unm_reply)

text \<open>
  C6, as the code has it. A call that has returned has returned either a Response and
  no error, or no Response and one error: ErrTimeoutSend, ErrTimeoutRecv, ChannelErr or
  the error of the context, which is then done. It returns the Response, whatever its
  \<open>Err\<close>, when its second select takes it from the reply channel; that is so when the
  reply is in the channel as the select is entered under a live context, and when
  dispatch sends the reply while the call is blocked in the select. A call that is
  blocked in either select returns the timeout of that phase when its timer fires.
\<close>

theorem Exec_outcome:
  "(calls (run J ls init) i = CDone (res, err) \<longrightarrow>
      (\<exists>x. res = Some x \<and> err = None) \<or>
      (res = None \<and>
         (err = Some ErrTimeoutSend \<or> err = Some ErrTimeoutRecv \<or> err = Some ChannelErr \<or>
          (err \<noteq> None \<and> err = cx (run J ls init))))) \<and>
   (calls s i = CSent req \<longrightarrow> chans s (Response req) = x # buf \<longrightarrow> cx s = None \<longrightarrow>
      calls (Exec_recv i p s) i = CDone (Some x, None)) \<and>
   (rl s = RSend req resp \<longrightarrow> recvq s (Response req) = Some i \<longrightarrow> cx s = None \<longrightarrow>
      calls (dispatch_select p s) i = CDone (Some resp, None)) \<and>
   (calls s i = CSend req \<longrightarrow> calls (timer_fire i s) i = CDone (None, Some ErrTimeoutSend)) \<and>
   (calls s i = CRecv req \<longrightarrow> calls (timer_fire i s) i = CDone (None, Some ErrTimeoutRecv))"
proof -
  have "calls (run J ls init) i = CDone (res, err) \<Longrightarrow>
      result_ok (cx (run J ls init)) (res, err)"
    using returns_ok_reachable unfolding returns_ok_def by blast
  then have 1: "calls (run J ls init) i = CDone (res, err) \<longrightarrow>
      (\<exists>x. res = Some x \<and> err = None) \<or>
      (res = None \<and>
         (err = Some ErrTimeoutSend \<or> err = Some ErrTimeoutRecv \<or> err = Some ChannelErr \<or>
          (err \<noteq> None \<and> err = cx (run J ls init))))"
    using result_ok_cases by blast
  have 2: "calls s i = CSent req \<longrightarrow> chans s (Response req) = x # buf \<longrightarrow> cx s = None \<longrightarrow>
      calls (Exec_recv i p s) i = CDone (Some x, None)"
    by (simp add: Exec_recv_def Exec_reply_def Let_def)
  have 3: "rl s = RSend req resp \<longrightarrow> recvq s (Response req) = Some i \<longrightarrow> cx s = None \<longrightarrow>
      calls (dispatch_select p s) i = CDone (Some resp, None)"
    by (simp add: dispatch_select_def deliver_def Let_def)
  have 4: "calls s i = CSend req \<longrightarrow> calls (timer_fire i s) i = CDone (None, Some ErrTimeoutSend)"
    and 5: "calls s i = CRecv req \<longrightarrow> calls (timer_fire i s) i = CDone (None, Some ErrTimeoutRecv)"
    by (simp_all add: timer_fire_def)
  from 1 2 3 4 5 show ?thesis by (intro conjI)
qed

theorem Exec_outcome_witness:
  \<open>calls (run encoding_json
       [WriterSelect, WriterRecv PickComm,
        ExecSend 0 [AString ''get_property'', AString ''pause''] 7 PickComm,
        WriterWrite True, ReaderSelect,
        ReaderRead (Inr ''{"error":"success","data":false,"request_id":7}\<newline>''),
        ReaderSend PickComm] init) 0 =
     CSent (newRequest [AString ''get_property'', AString ''pause''] 7 0) \<and>
   calls (Exec_recv 0 PickDone (run encoding_json
       [WriterSelect, WriterRecv PickComm,
        ExecSend 0 [AString ''get_property'', AString ''pause''] 7 PickComm,
        WriterWrite True, ReaderSelect,
        ReaderRead (Inr ''{"error":"success","data":false,"request_id":7}\<newline>''),
        ReaderSend PickComm] init)) 0 =
     CDone (Some \<lparr>Err = ''success'', Data = ''false'', Event = [], RequestID = 7\<rparr>, None) \<and>
   calls pending 0 = CRecv (newRequest [AString ''get_property'', AString ''pause''] 7 0) \<and>
   calls (timer_fire 0 pending) 0 = CDone (None, Some ErrTimeoutRecv)\<close>
proof -
  let ?s = \<open>run encoding_json
       [WriterSelect, WriterRecv PickComm,
        ExecSend 0 [AString ''get_property'', AString ''pause''] 7 PickComm,
        WriterWrite True, ReaderSelect,
        ReaderRead (Inr ''{"error":"success","data":false,"request_id":7}\<newline>''),
        ReaderSend PickComm] init\<close>
  let ?req = "newRequest [AString ''get_property'', AString ''pause''] 7 0"
  let ?resp = "\<lparr>Err = ''success'', Data = ''false'', Event = [], RequestID = 7\<rparr>"
  note a = buffered_fields(1)
  have b: "chans ?s (Response ?req) = ?resp # []"
    using buffered_fields(2) by (simp add: newRequest_def)
  note c = buffered_fields(3)
  have 1: "calls (Exec_recv 0 PickDone ?s) 0 = CDone (Some ?resp, None)"
    by (rule Exec_outcome [THEN conjunct2, THEN conjunct1, rule_format, OF a b c])
  have d: "calls pending 0 = CRecv ?req"
    by (simp add: pending_fields newRequest_def rand_Intn_def)
  have 2: "calls (timer_fire 0 pending) 0 = CDone (None, Some ErrTimeoutRecv)"
    by (rule Exec_outcome [THEN conjunct2, THEN conjunct2, THEN conjunct2, THEN conjunct2,
          rule_format, OF d])
  from a 1 d 2 show ?thesis by (intro conjI)
qed

text \<open>
  Against C6 as it stands: the reply is in the reply channel before any deadline, Close
  is called before the call enters its second select, and the select, with both cases
  ready, takes the case of the context: Exec returns no Response and the error Canceled.
\<close>

theorem reply_and_cancel_counterexample:
  \<open>chans (run encoding_json
       [WriterSelect, WriterRecv PickComm,
        ExecSend 0 [AString ''get_property'', AString ''pause''] 7 PickComm,
        WriterWrite True, ReaderSelect,
        ReaderRead (Inr ''{"error":"success","data":false,"request_id":7}\<newline>''),
        ReaderSend PickComm, DoClose] init) 0 =
     [\<lparr>Err = ''success'', Data = ''false'', Event = [], RequestID = 7\<rparr>] \<and>
   calls (run encoding_json
       [WriterSelect, WriterRecv PickComm,
        ExecSend 0 [AString ''get_property'', AString ''pause''] 7 PickComm,
        WriterWrite True, ReaderSelect,
        ReaderRead (Inr ''{"error":"success","data":false,"request_id":7}\<newline>''),
        ReaderSend PickComm, DoClose, ExecRecv 0 PickDone] init) 0 =
     CDone (None, Some Canceled)\<close>
  by (simp add: step_defs mar_get unm_reply)

end
